theory Spec2Isabelle
  imports Main "HOL-Library.Signed_Division"
begin

unbundle bit_operations_syntax

section \<open>The heap allocator of p3Heap (src/unnamed/part\_000)\<close>

text \<open>
  The allocator manages one memory-mapped region through a global \<^verbatim>\<open>heap_start\<close>
  pointer and block headers stored inside the region.  Addresses are byte addresses,
  modelled as integers; the store maps the address of a 4-byte word to the C \<^verbatim>\<open>int\<close>
  kept there.  The only field of \<^verbatim>\<open>blockHeader\<close> is \<^verbatim>\<open>size_status\<close>, so a
  header or footer at address \<open>a\<close> is the word \<open>mem h a\<close>.
  The C \<^verbatim>\<open>int\<close> values are modelled as mathematical integers with the bitwise
  operations of two's complement; where a caller's argument enters an addition
  (\<^verbatim>\<open>balloc\<close>, \<^verbatim>\<open>init_heap\<close>) or a pointer is cast to \<^verbatim>\<open>int\<close> (\<^verbatim>\<open>bfree\<close>)
  the 32-bit wrap-around is written out with \<open>c_int\<close>.
\<close>

type_synonym addr = int
type_synonym memory = "addr \<Rightarrow> int"

record heap =
  heap_start :: addr
  alloc_size :: int
  allocated_once :: bool
  mem :: memory

definition c_int :: "int \<Rightarrow> int" where
  "c_int x = signed_take_bit 31 x"

definition header_size :: int where
  "header_size = 4"

datatype alloc_error = InvalidSize | OutOfMemory

datatype free_error = NullPointer | Misaligned | OutOfRange | DoubleFree

datatype init_error = AlreadyInitialized | InvalidRegionSize | CannotOpenDevZero | MmapFailed

subsection \<open>best\_block\<close>

text \<open>
  The \<^verbatim>\<open>while\<close> loop of \<^verbatim>\<open>best_block\<close>, with the loop variables \<^verbatim>\<open>current\<close> and
  \<^verbatim>\<open>fit\<close> as arguments (\<open>None\<close> is the \<^verbatim>\<open>NULL\<close> fit).  The loop has no bound in the
  source, so the result is optional: the outer \<open>None\<close> is a walk that never ends.
\<close>

partial_function (option) best_loop ::
  "memory \<Rightarrow> int \<Rightarrow> addr \<Rightarrow> addr option \<Rightarrow> addr option option" where
  "best_loop m sz current fit =
     (if m current \<noteq> 1 then
        (if (m current AND NOT 3) \<le> 0 then Some fit
         else best_loop m sz (current + (m current AND NOT 3))
                (if m current AND 1 = 0 \<and> (m current AND NOT 3) \<ge> sz then
                   (if (case fit of None \<Rightarrow> True
                        | Some f \<Rightarrow> (m current AND NOT 3) < (m f AND NOT 3))
                    then Some current else fit)
                 else fit))
      else Some fit)"

declare best_loop.simps [code]

definition best_block :: "heap \<Rightarrow> int \<Rightarrow> addr option option" where
  "best_block h sz =
     (case best_loop (mem h) sz (heap_start h) None of
        None \<Rightarrow> None
      | Some None \<Rightarrow> Some None
      | Some (Some fit) \<Rightarrow>
          if (mem h fit AND NOT 3) < sz then Some None else Some (Some fit))"

subsection \<open>coalesce\<close>

text \<open>
  The first \<^verbatim>\<open>if\<close> of \<^verbatim>\<open>coalesce\<close>: the word before \<^verbatim>\<open>block\<close> is read as the footer
  of the previous block.  The result carries the updated locals \<^verbatim>\<open>block\<close> and
  \<^verbatim>\<open>blockSize\<close>.
\<close>

definition coalesce_prev :: "addr \<Rightarrow> heap \<Rightarrow> heap \<times> addr \<times> int" where
  "coalesce_prev block h =
     (let blockSize = mem h block AND NOT 3;
          prevFooter = block - header_size;
          prevBlockSize = mem h prevFooter;
          prevHeader = prevFooter - prevBlockSize + header_size
      in if prevFooter \<ge> heap_start h \<and> mem h prevHeader AND 1 = 0 then
           (let newBlockSize = blockSize + prevBlockSize;
                m1 = (mem h)(prevHeader := newBlockSize);
                newFooter = block + blockSize - header_size
            in (h\<lparr>mem := m1(newFooter := newBlockSize)\<rparr>, prevHeader, newBlockSize))
         else (h, block, blockSize))"

text \<open>The second \<^verbatim>\<open>if\<close> of \<^verbatim>\<open>coalesce\<close>: the block after the (possibly merged) block.\<close>

definition coalesce_next :: "heap \<times> addr \<times> int \<Rightarrow> heap" where
  "coalesce_next = (\<lambda>(h, block, blockSize).
     (let nextHeader = block + blockSize
      in if mem h nextHeader \<noteq> 1 \<and> mem h nextHeader AND 1 = 0 then
           (let nextBlockSize = mem h nextHeader AND NOT 3;
                newBlockSize = blockSize + nextBlockSize;
                m1 = (mem h)(block := newBlockSize);
                newFooter = nextHeader + nextBlockSize - header_size
            in h\<lparr>mem := m1(newFooter := newBlockSize)\<rparr>)
         else h))"

definition coalesce :: "addr \<Rightarrow> heap \<Rightarrow> heap" where
  "coalesce block h = coalesce_next (coalesce_prev block h)"

subsection \<open>balloc\<close>

text \<open>
  The part of \<^verbatim>\<open>balloc\<close> after the best-fit block is found: split or mark the block,
  then set the p-bit of the word that follows the allocated block.
\<close>

definition place :: "addr \<Rightarrow> int \<Rightarrow> heap \<Rightarrow> heap" where
  "place fitBlock rounded_size h =
     (let headerSize = header_size;
          remaining_bits = (mem h fitBlock AND NOT 3) - rounded_size;
          m1 = (if remaining_bits \<ge> headerSize + 8 then
                  (let newBlock = fitBlock + rounded_size;
                       m2 = (mem h)(newBlock := remaining_bits);
                       footer = newBlock + remaining_bits - headerSize;
                       m3 = m2(footer := remaining_bits)
                   in m3(fitBlock := rounded_size OR 1 OR (m3 fitBlock AND 2)))
                else (mem h)(fitBlock := mem h fitBlock OR 1));
          nextBlock = fitBlock + (m1 fitBlock AND NOT 3)
      in h\<lparr>mem := m1(nextBlock := m1 nextBlock OR 2)\<rparr>)"

text \<open>The local \<^verbatim>\<open>rounded_size\<close> of \<^verbatim>\<open>balloc\<close>, a 32-bit addition followed by a mask.\<close>

definition rounded_size :: "int \<Rightarrow> int" where
  "rounded_size sz = c_int (sz + header_size + 7) AND NOT 7"

definition balloc :: "int \<Rightarrow> heap \<Rightarrow> ((alloc_error + addr) \<times> heap) option" where
  "balloc sz h =
     (if sz < 1 then Some (Inl InvalidSize, h)
      else
        (case best_block h (rounded_size sz) of
           None \<Rightarrow> None
         | Some None \<Rightarrow> Some (Inl OutOfMemory, h)
         | Some (Some fitBlock) \<Rightarrow>
             Some (Inr (fitBlock + header_size), place fitBlock (rounded_size sz) h)))"

subsection \<open>bfree\<close>

text \<open>
  The four \<^verbatim>\<open>return -1\<close> statements of \<^verbatim>\<open>bfree\<close> are told apart by the check that
  reaches them, named after the comment above the function: \<^verbatim>\<open>ptr\<close> is \<^verbatim>\<open>NULL\<close>, is
  not a multiple of 8, its block is already freed, it is outside of the heap space.
\<close>

definition bfree :: "addr \<Rightarrow> heap \<Rightarrow> (free_error + unit) \<times> heap" where
  "bfree ptr h =
     (if ptr = 0 then (Inl NullPointer, h)
      else if c_int ptr smod 8 \<noteq> 0 then (Inl Misaligned, h)
      else
        (let b_to_free = ptr - header_size
         in if mem h b_to_free AND 1 = 0 then (Inl DoubleFree, h)
            else if b_to_free < heap_start h \<or> mem h b_to_free = 1 then (Inl OutOfRange, h)
            else
              (let blockSize = mem h b_to_free AND NOT 3;
                   m1 = (mem h)(b_to_free := mem h b_to_free AND NOT 3);
                   footer = b_to_free + blockSize - header_size
               in (Inr (), coalesce b_to_free (h\<lparr>mem := m1(footer := blockSize)\<rparr>)))))"

subsection \<open>init\_heap\<close>

text \<open>
  What \<^verbatim>\<open>init_heap\<close> gets from the operating system: the page size, the descriptor
  of \<^verbatim>\<open>/dev/zero\<close> and the address returned by \<^verbatim>\<open>mmap\<close> (\<open>None\<close> is
  \<^verbatim>\<open>MAP_FAILED\<close>).  The fresh mapping is filled with zeros.
\<close>

record os_env =
  pagesize :: int
  dev_zero_fd :: int
  mmap_ptr :: "addr option"

definition init_heap :: "os_env \<Rightarrow> int \<Rightarrow> heap \<Rightarrow> (init_error + unit) \<times> heap" where
  "init_heap env sizeOfRegion h =
     (if allocated_once h then (Inl AlreadyInitialized, h)
      else if sizeOfRegion \<le> 0 then (Inl InvalidRegionSize, h)
      else
        (let padsize0 = sizeOfRegion smod pagesize env;
             padsize = (pagesize env - padsize0) smod pagesize env;
             mapped = c_int (sizeOfRegion + padsize)
         in if dev_zero_fd env = - 1 then (Inl CannotOpenDevZero, h\<lparr>alloc_size := mapped\<rparr>)
            else case mmap_ptr env of
              None \<Rightarrow> (Inl MmapFailed, h\<lparr>alloc_size := mapped, allocated_once := False\<rparr>)
            | Some p \<Rightarrow>
                (let m0 = (\<lambda>a. if p \<le> a \<and> a < p + mapped then 0 else mem h a);
                     asize = mapped - 8;
                     hs = p + 4;
                     end_mark = hs + asize;
                     m1 = m0(end_mark := 1);
                     m2 = m1(hs := asize);
                     m3 = m2(hs := m2 hs + 2);
                     footer = hs + asize - 4
                 in (Inr (), \<lparr>heap_start = hs, alloc_size = asize, allocated_once = True,
                              mem = m3(footer := asize)\<rparr>))))"

section \<open>Reading the block list\<close>

text \<open>
  The size and the two status bits of the header word at an address, as the source
  reads them: \<^verbatim>\<open>size_status & ~3\<close>, \<^verbatim>\<open>size_status & 1\<close>, \<^verbatim>\<open>size_status & 2\<close>.
\<close>

definition wsize :: "int \<Rightarrow> int" where
  "wsize w = w AND NOT 3"

definition bsize :: "heap \<Rightarrow> addr \<Rightarrow> int" where
  "bsize h a = mem h a AND NOT 3"

definition is_alloc :: "heap \<Rightarrow> addr \<Rightarrow> bool" where
  "is_alloc h a \<longleftrightarrow> mem h a AND 1 \<noteq> 0"

definition prev_alloc :: "heap \<Rightarrow> addr \<Rightarrow> bool" where
  "prev_alloc h a \<longleftrightarrow> mem h a AND 2 \<noteq> 0"

text \<open>
  \<open>is_walk m a bl\<close>: the loop of \<^verbatim>\<open>best_block\<close> started at \<open>a\<close> visits exactly the
  headers \<open>bl\<close>, in this order, and then stops (at a word equal to 1 or with a size
  that is not positive).
\<close>

primrec is_walk :: "memory \<Rightarrow> addr \<Rightarrow> addr list \<Rightarrow> bool" where
  "is_walk m a [] = (m a = 1 \<or> (m a AND NOT 3) \<le> 0)"
| "is_walk m a (b # bl) =
     (b = a \<and> m a \<noteq> 1 \<and> 0 < (m a AND NOT 3) \<and> is_walk m (a + (m a AND NOT 3)) bl)"

text \<open>One iteration of the loop of \<^verbatim>\<open>best_block\<close> on the variable \<^verbatim>\<open>fit\<close>.\<close>

definition better :: "memory \<Rightarrow> int \<Rightarrow> addr option \<Rightarrow> addr \<Rightarrow> addr option" where
  "better m sz fit current =
     (if m current AND 1 = 0 \<and> (m current AND NOT 3) \<ge> sz then
        (if (case fit of None \<Rightarrow> True
             | Some f \<Rightarrow> (m current AND NOT 3) < (m f AND NOT 3))
         then Some current else fit)
      else fit)"

text \<open>A free block of the walk that can hold \<open>sz\<close> bytes.\<close>

definition candidate :: "memory \<Rightarrow> int \<Rightarrow> addr \<Rightarrow> bool" where
  "candidate m sz b \<longleftrightarrow> m b AND 1 = 0 \<and> sz \<le> (m b AND NOT 3)"

text \<open>The choice made by a left-to-right scan that keeps the first strict minimum.\<close>

definition pick :: "('a \<Rightarrow> bool) \<Rightarrow> ('a \<Rightarrow> int) \<Rightarrow> 'a option \<Rightarrow> 'a \<Rightarrow> 'a option" where
  "pick C S fit b =
     (if C b \<and> (case fit of None \<Rightarrow> True | Some f \<Rightarrow> S b < S f) then Some b else fit)"

text \<open>
  A small region used to run the operations on: free blocks of 40, 24, 32 and 24 bytes
  at the addresses 4, 60, 100 and 148, separated by allocated blocks of 16 bytes, and
  the end mark at 172.
\<close>

definition example_heap :: heap where
  "example_heap =
     \<lparr>heap_start = 4, alloc_size = 168, allocated_once = True,
      mem = (\<lambda>_. 0)(4 := 42, 40 := 40, 44 := 17, 60 := 26, 80 := 24, 84 := 17,
                      100 := 34, 128 := 32, 132 := 17, 148 := 26, 168 := 24, 172 := 1)\<rparr>"

section \<open>Runs of the allocator on a region of one page\<close>

text \<open>
  The operating system of the runs: pages of 4096 bytes, \<^verbatim>\<open>/dev/zero\<close> opens, and
  \<^verbatim>\<open>mmap\<close> returns the page at address 4096.  \<open>fresh\<close> is the program state before
  \<^verbatim>\<open>init_heap\<close>.  After \<open>init_heap 4096\<close> the first header is at 4100 and the end
  mark at 8188; the heaps \<open>t0\<close>, \<open>t1\<close>, ... are the states the calls below go through,
  given by the words that are not zero.
\<close>

definition env4096 :: os_env where
  "env4096 = \<lparr>pagesize = 4096, dev_zero_fd = 3, mmap_ptr = Some 4096\<rparr>"

definition fresh :: heap where
  "fresh = \<lparr>heap_start = 0, alloc_size = 0, allocated_once = False, mem = (\<lambda>_. 0)\<rparr>"

definition region :: "memory \<Rightarrow> heap" where
  "region m = \<lparr>heap_start = 4100, alloc_size = 4088, allocated_once = True, mem = m\<rparr>"

definition t0 :: heap where
  "t0 = region ((\<lambda>_. 0)(4100 := 4090, 8184 := 4088, 8188 := 1))"

definition t1 :: heap where
  "t1 = region ((\<lambda>_. 0)(4100 := 11, 4108 := 4082, 8184 := 4080, 8188 := 1))"

definition t2 :: heap where
  "t2 = region ((\<lambda>_. 0)(4100 := 11, 4108 := 11, 4116 := 4074, 8184 := 4072, 8188 := 1))"

definition t3 :: heap where
  "t3 = region ((\<lambda>_. 0)(4100 := 11, 4108 := 4080, 4112 := 8, 4116 := 4074,
                          8184 := 4080, 8188 := 1))"

definition t4 :: heap where
  "t4 = region ((\<lambda>_. 0)(4100 := 4088, 4104 := 8, 4108 := 4080, 4112 := 8, 4116 := 4074,
                          8184 := 4088, 8188 := 1))"

definition t5 :: heap where
  "t5 = region ((\<lambda>_. 0)(4100 := 17, 4104 := 8, 4108 := 4080, 4112 := 8, 4116 := 4074,
                          8184 := 4072, 8188 := 1))"

definition t6 :: heap where
  "t6 = region ((\<lambda>_. 0)(4100 := 17, 4104 := 8, 4108 := 4080, 4112 := 8, 4116 := 11,
                          4124 := 4066, 8184 := 4064, 8188 := 1))"

definition t7 :: heap where
  "t7 = region ((\<lambda>_. 0)(4100 := 17, 4104 := 8, 4108 := 4080, 4112 := 8, 4116 := 8,
                          4120 := 16, 4124 := 4066, 8184 := 4080, 8188 := 1))"

definition u3 :: heap where
  "u3 = region ((\<lambda>_. 0)(4100 := 8, 4104 := 8, 4108 := 11, 4116 := 4074, 8184 := 4072,
                          8188 := 1))"

definition tfull :: heap where
  "tfull = region ((\<lambda>_. 0)(4100 := 4091, 8184 := 4088, 8188 := 3))"

definition tbad :: heap where
  "tbad = region ((\<lambda>_. 0)(4100 := 4091))"

text \<open>
  \<open>tw\<close> is \<open>t2\<close> after the caller has stored the value -8 in the payload of its first
  block (the word at 4104); \<open>tz\<close> is the heap after the second block is freed then.
\<close>

definition tw :: heap where
  "tw = region ((\<lambda>_. 0)(4100 := 11, 4104 := - 8, 4108 := 11, 4116 := 4074, 8184 := 4072,
                          8188 := 1))"

definition tz :: heap where
  "tz = region ((\<lambda>_. 0)(4100 := 11, 4104 := - 8, 4108 := 8, 8184 := 4072, 8188 := 1))"

text \<open>
  \<open>r2\<close> and \<open>r3\<close>: the fresh region \<open>t0\<close> after \<open>balloc 4\<close> and \<open>bfree\<close> of its pointer,
  and after \<open>balloc 4084\<close> (the whole region) and \<open>bfree\<close> of its pointer.
\<close>

definition r2 :: heap where
  "r2 = region ((\<lambda>_. 0)(4100 := 4088, 4104 := 8, 4108 := 4082, 8184 := 4088, 8188 := 1))"

definition r3 :: heap where
  "r3 = region ((\<lambda>_. 0)(4100 := 4088, 8184 := 4088, 8188 := 3))"

text \<open>
  A run in which the caller keeps the block at 4120 (20 bytes, the words 4120 to 4136)
  from \<open>v4\<close> on: \<open>balloc 36\<close>, \<open>bfree 4104\<close>, \<open>balloc 8\<close>, \<open>balloc 20\<close>, \<open>balloc 8\<close>,
  \<open>bfree 4104\<close>, \<open>bfree 4144\<close>, \<open>balloc 16\<close>, then the caller stores 28 in the word
  4124 of its block (\<open>v9\<close>), then \<open>balloc 28\<close>.
\<close>

definition v1 :: heap where
  "v1 = region ((\<lambda>_. 0)(4100 := 43, 4140 := 4050, 8184 := 4048, 8188 := 1))"

definition v2 :: heap where
  "v2 = region ((\<lambda>_. 0)(4100 := 4088, 4136 := 40, 4140 := 4050, 8184 := 4088, 8188 := 1))"

definition v3 :: heap where
  "v3 = region ((\<lambda>_. 0)(4100 := 17, 4116 := 4074, 4136 := 40, 4140 := 4050, 8184 := 4072,
                          8188 := 1))"

definition v4 :: heap where
  "v4 = region ((\<lambda>_. 0)(4100 := 17, 4116 := 27, 4136 := 40, 4140 := 4050, 8184 := 4048,
                          8188 := 1))"

definition v5 :: heap where
  "v5 = region ((\<lambda>_. 0)(4100 := 17, 4116 := 27, 4136 := 40, 4140 := 19, 4156 := 4034,
                          8184 := 4032, 8188 := 1))"

definition v6 :: heap where
  "v6 = region ((\<lambda>_. 0)(4100 := 16, 4112 := 16, 4116 := 27, 4136 := 40, 4140 := 19,
                          4156 := 4034, 8184 := 4032, 8188 := 1))"

definition v7 :: heap where
  "v7 = region ((\<lambda>_. 0)(4100 := 4088, 4112 := 16, 4116 := 27, 4136 := 40, 4140 := 16,
                          4152 := 56, 4156 := 4034, 8184 := 4088, 8188 := 1))"

definition v8 :: heap where
  "v8 = region ((\<lambda>_. 0)(4100 := 25, 4112 := 16, 4116 := 27, 4124 := 4066, 4136 := 40,
                          4140 := 16, 4152 := 56, 4156 := 4034, 8184 := 4064, 8188 := 1))"

definition v9 :: heap where
  "v9 = region ((\<lambda>_. 0)(4100 := 25, 4112 := 16, 4116 := 27, 4124 := 28, 4136 := 40,
                          4140 := 16, 4152 := 56, 4156 := 4034, 8184 := 4064, 8188 := 1))"

definition v10 :: heap where
  "v10 = region ((\<lambda>_. 0)(4100 := 25, 4112 := 16, 4116 := 27, 4124 := 28, 4136 := 40,
                           4140 := 16, 4152 := 33, 4156 := 4034, 4184 := 26, 4204 := 24,
                           8184 := 4064, 8188 := 1))"

section \<open>Stores\<close>

text \<open>
  A store of one word: by the allocator into a header or footer, or by the caller into
  the payload of a block it holds (\<^verbatim>\<open>*(int*)a = v\<close>).
\<close>

definition wr :: "addr \<Rightarrow> int \<Rightarrow> heap \<Rightarrow> heap" where
  "wr a v h = h\<lparr>mem := (mem h)(a := v)\<rparr>"

section \<open>Bit operations as arithmetic\<close>

lemma and_not_mask_int: "(x::int) AND NOT (mask n) = x - x mod 2 ^ n"
proof -
  have "x AND NOT (mask n) = push_bit n (drop_bit n x)"
    by (auto simp: bit_eq_iff bit_simps)
  also have "\<dots> = x - take_bit n x"
    using bits_ident [of n x] by simp
  finally show ?thesis by (simp add: take_bit_eq_mod)
qed

lemma and_not_3: "(x::int) AND NOT 3 = x - x mod 4"
  using and_not_mask_int [of x 2] by (simp add: mask_eq_exp_minus_1)

lemma and_not_7: "(x::int) AND NOT 7 = x - x mod 8"
  using and_not_mask_int [of x 3] by (simp add: mask_eq_exp_minus_1)

lemma and_1: "(x::int) AND 1 = x mod 2"
  by (simp add: and_one_eq)

lemma and_3: "(x::int) AND 3 = x mod 4"
  using take_bit_eq_mask [of 2 x] by (simp add: mask_eq_exp_minus_1 take_bit_eq_mod)

lemma and_2: "(x::int) AND 2 = x mod 4 - x mod 2"
proof -
  have "x AND 3 = (x AND 2) OR (x AND 1)"
    by (simp flip: bit.conj_disj_distrib)
  also have "\<dots> = (x AND 2) + (x AND 1)"
    by (rule disjunctive_add [symmetric]) (auto simp: bit_simps bit_eq_iff)
  finally show ?thesis by (simp add: and_1 and_3)
qed

lemma or_2: "(x::int) OR 2 = x + 2 - (x mod 4 - x mod 2)"
  using plus_and_or [of x 2] by (simp add: and_2)

lemma or_1: "(x::int) OR 1 = x + 1 - x mod 2"
  using plus_and_or [of x 1] by (simp add: and_1)

lemma and_m4: "(x::int) AND - 4 = x - x mod 4"
  using and_not_3 [of x] by simp

lemma and_m8: "(x::int) AND - 8 = x - x mod 8"
  using and_not_7 [of x] by simp

lemmas bits_arith = and_not_3 and_not_7 and_m4 and_m8 and_1 and_2 or_1 or_2

lemma c_int_id: "- 2147483648 \<le> x \<Longrightarrow> x < 2147483648 \<Longrightarrow> c_int x = x"
  unfolding c_int_def by (rule signed_take_bit_int_eq_self) simp_all

lemma c_int_mod8: "c_int x mod 8 = x mod 8"
proof -
  have shift: "(t - 4294967296) mod 8 = t mod 8" for t :: int
  proof -
    have "(t - 4294967296) mod 8 = (t + (- 536870912) * 8) mod 8" by simp
    also have "\<dots> = t mod 8" by (rule mod_mult_self1)
    finally show ?thesis .
  qed
  have "c_int x = take_bit 32 x + (if bit x 31 then - (2 ^ 32) else 0)"
    unfolding c_int_def by (simp add: signed_take_bit_eq_take_bit_minus)
  moreover have "take_bit 32 x mod 8 = x mod 8"
    by (simp add: take_bit_eq_mod mod_mod_cancel)
  ultimately show ?thesis
    by (simp add: shift split: if_splits)
qed

lemma smod_8_iff: "(x::int) smod 8 = 0 \<longleftrightarrow> x mod 8 = 0"
proof -
  have "x smod 8 = 0 \<longleftrightarrow> \<bar>x\<bar> mod 8 = 0"
    by (simp add: smod_int_alt_def sgn_if)
  also have "\<dots> \<longleftrightarrow> 8 dvd \<bar>x\<bar>" by (simp add: dvd_eq_mod_eq_0)
  also have "\<dots> \<longleftrightarrow> 8 dvd x" by simp
  finally show ?thesis by (simp add: dvd_eq_mod_eq_0)
qed

lemma rounded_size_eq:
  assumes "1 \<le> n" "n \<le> 2147483636"
  shows "rounded_size n = n + 11 - (n + 11) mod 8"
  using assms by (simp add: rounded_size_def header_size_def c_int_id and_m8 add.commute)

section \<open>The best-fit scan\<close>

lemma best_loop_walk:
  "is_walk m a bl \<Longrightarrow> best_loop m sz a fit = Some (foldl (better m sz) fit bl)"
proof (induction bl arbitrary: a fit)
  case Nil
  then show ?case by (subst best_loop.simps) auto
next
  case (Cons b bl)
  from Cons.prems have step:
    "best_loop m sz a fit = best_loop m sz (a + (m a AND NOT 3)) (better m sz fit a)"
    by (subst best_loop.simps) (simp add: better_def)
  from Cons.prems have "is_walk m (a + (m a AND NOT 3)) bl" "b = a" by simp_all
  with Cons.IH [of "a + (m a AND NOT 3)" "better m sz fit a"] step show ?case by simp
qed

lemma is_walk_lower: "is_walk m a bl \<Longrightarrow> b \<in> set bl \<Longrightarrow> a \<le> b"
  by (induction bl arbitrary: a) fastforce+

lemma is_walk_sorted: "is_walk m a bl \<Longrightarrow> sorted_wrt (<) bl"
proof (induction bl arbitrary: a)
  case Nil
  then show ?case by simp
next
  case (Cons b bl)
  then have "\<forall>c\<in>set bl. b < c"
    using is_walk_lower [of m "a + (m a AND NOT 3)" bl] by fastforce
  with Cons show ?case by auto
qed

lemma foldl_pick_None:
  "foldl (pick C S) fit bl = None \<longleftrightarrow> fit = None \<and> (\<forall>b\<in>set bl. \<not> C b)"
  by (induction bl arbitrary: fit) (auto simp: pick_def split: option.splits)

lemma foldl_pick_Some:
  fixes bl :: "int list"
  assumes "foldl (pick C S) fit bl = Some f" "sorted_wrt (<) bl"
    "\<forall>g. fit = Some g \<longrightarrow> C g \<and> (\<forall>b\<in>set bl. g < b)"
  shows "(fit = Some f \<or> f \<in> set bl) \<and> C f
       \<and> (\<forall>g. fit = Some g \<longrightarrow> f = g \<or> S f < S g)
       \<and> (\<forall>c\<in>set bl. C c \<longrightarrow> S f < S c \<or> (S f = S c \<and> f \<le> c))"
  using assms
proof (induction bl arbitrary: fit)
  case Nil
  then show ?case by auto
next
  case (Cons b bl)
  let ?fit1 = "pick C S fit b"
  have 1: "foldl (pick C S) ?fit1 bl = Some f" using Cons.prems(1) by simp
  have 2: "sorted_wrt (<) bl" using Cons.prems(2) by simp
  have 3: "\<forall>g. ?fit1 = Some g \<longrightarrow> C g \<and> (\<forall>c\<in>set bl. g < c)"
    using Cons.prems(2,3) by (auto simp: pick_def split: if_splits)
  note IH = Cons.IH [OF 1 2 3]
  show ?case
  proof (cases "C b \<and> (case fit of None \<Rightarrow> True | Some g \<Rightarrow> S b < S g)")
    case True
    then have "?fit1 = Some b" by (simp add: pick_def)
    with IH True show ?thesis by (cases fit) force+
  next
    case False
    then have e: "?fit1 = fit" unfolding pick_def by (simp only: if_False)
    show ?thesis
    proof (cases fit)
      case None
      with e IH False show ?thesis by auto
    next
      case (Some g)
      with False have "C b \<longrightarrow> S g \<le> S b" by auto
      moreover have "g < b" using Some Cons.prems(3) by simp
      ultimately show ?thesis using e IH Some by force
    qed
  qed
qed

lemma better_pick: "better m sz = pick (candidate m sz) (\<lambda>b. m b AND NOT 3)"
  by (intro ext) (auto simp: better_def pick_def candidate_def split: option.splits)


lemma best_block_walk:
  assumes "is_walk (mem h) (heap_start h) bl"
  shows "best_block h sz =
     Some (foldl (pick (candidate (mem h) sz) (\<lambda>b. mem h b AND NOT 3)) None bl)"
proof -
  let ?r = "foldl (pick (candidate (mem h) sz) (\<lambda>b. mem h b AND NOT 3)) None bl"
  have loop: "best_loop (mem h) sz (heap_start h) None = Some ?r"
    using best_loop_walk [OF assms] by (simp add: better_pick)
  show ?thesis
  proof (cases ?r)
    case None
    with loop show ?thesis by (simp add: best_block_def)
  next
    case (Some f)
    then have "candidate (mem h) sz f"
      using foldl_pick_Some [OF Some is_walk_sorted [OF assms]] by simp
    then have "\<not> (mem h f AND NOT 3) < sz" by (simp add: candidate_def)
    with loop Some show ?thesis by (simp add: best_block_def)
  qed
qed










lemma bsize_wsize: "bsize h a = wsize (mem h a)"
  by (simp add: bsize_def wsize_def)



lemma example_walk:
  "is_walk (mem example_heap) (heap_start example_heap) [4, 44, 60, 84, 100, 132, 148]"
  by (simp add: example_heap_def)

lemma example_words:
  "bsize example_heap 4 = 40" "bsize example_heap 44 = 16" "bsize example_heap 60 = 24"
  "bsize example_heap 84 = 16" "bsize example_heap 100 = 32" "bsize example_heap 132 = 16"
  "bsize example_heap 148 = 24"
  "\<not> is_alloc example_heap 4" "is_alloc example_heap 44" "\<not> is_alloc example_heap 60"
  "is_alloc example_heap 84" "\<not> is_alloc example_heap 100" "is_alloc example_heap 132"
  "\<not> is_alloc example_heap 148"
  by (simp_all add: example_heap_def bsize_def is_alloc_def)

lemma rounded_20: "rounded_size 20 = 24" "rounded_size 100 = 104"
  by (simp_all add: rounded_size_eq)

section \<open>The runs, step by step\<close>

lemma smod_eval:
  "c_int 4104 smod 8 = 0" "c_int 4112 smod 8 = 0" "c_int 4120 smod 8 = 0"
  "c_int 8192 smod 8 = 0" "c_int 4096 smod 8 = 0"
  by (simp_all add: smod_8_iff c_int_mod8)

lemma rounded_eval: "rounded_size 4 = 8" "rounded_size 12 = 16" "rounded_size 4084 = 4088"
  by (simp_all add: rounded_size_eq)

lemmas balloc_eval = balloc_def rounded_eval best_block_def best_loop.simps place_def
  header_size_def region_def Let_def fun_eq_iff

lemmas bfree_eval = bfree_def smod_eval coalesce_def coalesce_prev_def coalesce_next_def
  header_size_def region_def Let_def fun_eq_iff

lemma init_t0: "init_heap env4096 4096 fresh = (Inr (), t0)"
  by (simp add: init_heap_def env4096_def fresh_def t0_def region_def c_int_id
      smod_int_alt_def Let_def fun_eq_iff)

lemma step_t1: "balloc 4 t0 = Some (Inr 4104, t1)"
  by (simp add: balloc_eval t0_def t1_def)

lemma step_t2: "balloc 4 t1 = Some (Inr 4112, t2)"
  by (simp add: balloc_eval t1_def t2_def)

lemma step_t3: "bfree 4112 t2 = (Inr (), t3)"
  by (simp add: bfree_eval t2_def t3_def)

lemma step_t4: "bfree 4104 t3 = (Inr (), t4)"
  by (simp add: bfree_eval t3_def t4_def)

lemma step_t5: "balloc 12 t4 = Some (Inr 4104, t5)"
  by (simp add: balloc_eval t4_def t5_def)

lemma step_t6: "balloc 4 t5 = Some (Inr 4120, t6)"
  by (simp add: balloc_eval t5_def t6_def)

lemma step_t7: "bfree 4120 t6 = (Inr (), t7)"
  by (simp add: bfree_eval t6_def t7_def)

lemma step_u3: "bfree 4104 t2 = (Inr (), u3)"
  by (simp add: bfree_eval t2_def u3_def)

lemma step_tfull: "balloc 4084 t0 = Some (Inr 4104, tfull)"
  by (simp add: balloc_eval t0_def tfull_def)

lemma step_tbad: "bfree 8192 tfull = (Inr (), tbad)"
  by (simp add: bfree_eval tfull_def tbad_def)

lemma step_before: "bfree 4096 t0 = (Inl DoubleFree, t0)"
  by (simp add: bfree_eval t0_def)

lemma store_tw: "tw = wr 4104 (- 8) t2"
  by (simp add: tw_def t2_def wr_def region_def fun_eq_iff)

lemma step_tz: "bfree 4112 tw = (Inr (), tz)"
  by (simp add: bfree_eval tw_def tz_def)

lemma smod_eval2: "c_int 4144 smod 8 = 0"
  by (simp add: smod_8_iff c_int_mod8)

lemma rounded_eval2:
  "rounded_size 36 = 40" "rounded_size 8 = 16" "rounded_size 20 = 24" "rounded_size 16 = 24"
  "rounded_size 28 = 32"
  by (simp_all add: rounded_size_eq)

lemma step_r2: "bfree 4104 t1 = (Inr (), r2)"
  by (simp add: bfree_eval t1_def r2_def)

lemma step_r3: "bfree 4104 tfull = (Inr (), r3)"
  by (simp add: bfree_eval tfull_def r3_def)

lemma step_v1: "balloc 36 t0 = Some (Inr 4104, v1)"
  by (simp add: balloc_eval rounded_eval2 t0_def v1_def)

lemma step_v2: "bfree 4104 v1 = (Inr (), v2)"
  by (simp add: bfree_eval v1_def v2_def)

lemma step_v3: "balloc 8 v2 = Some (Inr 4104, v3)"
  by (simp add: balloc_eval rounded_eval2 v2_def v3_def)

lemma step_v4: "balloc 20 v3 = Some (Inr 4120, v4)"
  by (simp add: balloc_eval rounded_eval2 v3_def v4_def)

lemma step_v5: "balloc 8 v4 = Some (Inr 4144, v5)"
  by (simp add: balloc_eval rounded_eval2 v4_def v5_def)

lemma step_v6: "bfree 4104 v5 = (Inr (), v6)"
  by (simp add: bfree_eval v5_def v6_def)

lemma step_v7: "bfree 4144 v6 = (Inr (), v7)"
  by (simp add: bfree_eval smod_eval2 v6_def v7_def)

lemma step_v8: "balloc 16 v7 = Some (Inr 4104, v8)"
  by (simp add: balloc_eval rounded_eval2 v7_def v8_def)

lemma store_v9: "v9 = wr 4124 28 v8"
  by (simp add: v9_def v8_def wr_def region_def fun_eq_iff)

lemma step_v10: "balloc 28 v9 = Some (Inr 4156, v10)"
  by (simp add: balloc_eval rounded_eval2 v9_def v10_def)

section \<open>The two branches of place\<close>

lemma wr_simps [simp]:
  "heap_start (wr a v h) = heap_start h" "alloc_size (wr a v h) = alloc_size h"
  "allocated_once (wr a v h) = allocated_once h"
  "mem (wr a v h) x = (if x = a then v else mem h x)"
  by (simp_all add: wr_def)

lemma bsize_wr [simp]: "bsize (wr a v h) x = (if x = a then wsize v else bsize h x)"
  by (simp add: bsize_wsize)



section \<open>The claims\<close>

text \<open>
  Claim C1.  Whenever the block list read from the first block holds a free block of
  at least the rounded size, \<open>balloc\<close> returns the payload of the free block of
  smallest size among those that are large enough; among candidates of the same size
  it is the one at the lowest address.
\<close>

theorem balloc_best_fit:
  assumes "is_walk (mem h) (heap_start h) bl" "1 \<le> n"
    and "\<exists>b\<in>set bl. \<not> is_alloc h b \<and> rounded_size n \<le> bsize h b"
  shows "\<exists>f. balloc n h = Some (Inr (f + header_size), place f (rounded_size n) h)
           \<and> f \<in> set bl \<and> \<not> is_alloc h f \<and> rounded_size n \<le> bsize h f
           \<and> (\<forall>c\<in>set bl. \<not> is_alloc h c \<and> rounded_size n \<le> bsize h c \<longrightarrow>
                 bsize h f \<le> bsize h c \<and> (bsize h c = bsize h f \<longrightarrow> f \<le> c))"
proof -
  let ?C = "candidate (mem h) (rounded_size n)"
  let ?S = "\<lambda>b. mem h b AND NOT 3"
  have C: "?C b \<longleftrightarrow> \<not> is_alloc h b \<and> rounded_size n \<le> bsize h b" for b
    by (simp add: candidate_def is_alloc_def bsize_def)
  have S: "?S b = bsize h b" for b by (simp add: bsize_def)
  from assms(3) have "foldl (pick ?C ?S) None bl \<noteq> None"
    by (simp only: foldl_pick_None C) blast
  then obtain f where f: "foldl (pick ?C ?S) None bl = Some f" by blast
  have bb: "best_block h (rounded_size n) = Some (Some f)"
    using best_block_walk [OF assms(1)] f by simp
  have "balloc n h = Some (Inr (f + header_size), place f (rounded_size n) h)"
    using assms(2) bb by (simp add: balloc_def)
  moreover have "(None = Some f \<or> f \<in> set bl) \<and> ?C f
       \<and> (\<forall>g. None = Some g \<longrightarrow> f = g \<or> ?S f < ?S g)
       \<and> (\<forall>c\<in>set bl. ?C c \<longrightarrow> ?S f < ?S c \<or> (?S f = ?S c \<and> f \<le> c))"
    by (rule foldl_pick_Some [OF f is_walk_sorted [OF assms(1)]]) simp
  ultimately show ?thesis unfolding C S by (intro exI [of _ f]) force
qed

theorem balloc_best_fit_witness:
  "is_walk (mem example_heap) (heap_start example_heap) [4, 44, 60, 84, 100, 132, 148]
   \<and> balloc 20 example_heap = Some (Inr 64, place 60 24 example_heap)"
proof -
  let ?bl = "[4, 44, 60, 84, 100, 132, 148] :: int list"
  have c: "\<exists>b\<in>set ?bl. \<not> is_alloc example_heap b \<and> rounded_size 20 \<le> bsize example_heap b"
    by (simp add: example_words rounded_20)
  have n: "1 \<le> (20::int)" by simp
  from balloc_best_fit [OF example_walk n c]
  obtain f where f1: "balloc 20 example_heap
        = Some (Inr (f + header_size), place f (rounded_size 20) example_heap)"
    and f2: "f \<in> set ?bl"
    and f3: "\<not> is_alloc example_heap f" "rounded_size 20 \<le> bsize example_heap f"
    and f4: "\<forall>c\<in>set ?bl. \<not> is_alloc example_heap c \<and> rounded_size 20 \<le> bsize example_heap c \<longrightarrow>
       bsize example_heap f \<le> bsize example_heap c \<and> (bsize example_heap c = bsize example_heap f \<longrightarrow> f \<le> c)"
    by blast
  have "60 \<in> set ?bl" by simp
  with f4 have f5: "bsize example_heap f \<le> 24 \<and> (24 = bsize example_heap f \<longrightarrow> f \<le> 60)"
    by (simp add: example_words rounded_20)
  from f2 have "f = 4 \<or> f = 44 \<or> f = 60 \<or> f = 84 \<or> f = 100 \<or> f = 132 \<or> f = 148"
    by simp
  then have "f = 60"
    using f3 f5 by (elim disjE) (simp_all add: example_words rounded_20)
  with f1 have "balloc 20 example_heap = Some (Inr 64, place 60 24 example_heap)"
    by (simp add: header_size_def rounded_20)
  with example_walk show ?thesis by (rule conjI)
qed





text \<open>
  Claim C2.  The p-bit of every block equals the status of the block before it.
  \<open>bfree\<close> does not keep this: after two allocations and the release of the first
  one, the first block is free and the header of the second block still has its
  p-bit set.
\<close>

theorem bfree_keeps_stale_p_bit:
  "init_heap env4096 4096 fresh = (Inr (), t0) \<and> balloc 4 t0 = Some (Inr 4104, t1)
   \<and> balloc 4 t1 = Some (Inr 4112, t2) \<and> bfree 4104 t2 = (Inr (), u3)
   \<and> is_walk (mem u3) (heap_start u3) [4100, 4108, 4116]
   \<and> \<not> is_alloc u3 4100 \<and> prev_alloc u3 4108"
  using init_t0 step_t1 step_t2 step_u3
  by (simp add: u3_def region_def is_alloc_def prev_alloc_def)

text \<open>
  Claim C3.  After \<open>bfree\<close> no two neighbouring blocks are both free.  \<open>coalesce\<close>
  reads the word before the released block as a footer also when the block before it
  is allocated; in the run below that word is the footer of an older free block, the
  merge goes to an address inside the allocated block, and the released block at 4116
  stays a free block next to the free block at 4124.
\<close>

theorem coalesce_misses_neighbour:
  "init_heap env4096 4096 fresh = (Inr (), t0) \<and> balloc 4 t0 = Some (Inr 4104, t1)
   \<and> balloc 4 t1 = Some (Inr 4112, t2) \<and> bfree 4112 t2 = (Inr (), t3)
   \<and> bfree 4104 t3 = (Inr (), t4) \<and> balloc 12 t4 = Some (Inr 4104, t5)
   \<and> balloc 4 t5 = Some (Inr 4120, t6) \<and> bfree 4120 t6 = (Inr (), t7)
   \<and> is_walk (mem t7) (heap_start t7) [4100, 4116, 4124]
   \<and> \<not> is_alloc t7 4116 \<and> 4116 + bsize t7 4116 = 4124 \<and> \<not> is_alloc t7 4124"
  using init_t0 step_t1 step_t2 step_t3 step_t4 step_t5 step_t6 step_t7
  by (simp add: t7_def region_def is_alloc_def bsize_def)

text \<open>
  Claim C10.  An allocation leaves the end mark as it is.  \<open>balloc\<close> sets the p-bit of
  the word after the allocated block without testing for the end mark: when the last
  block is allocated the end mark changes from 1 to 3.
\<close>

theorem balloc_overwrites_end_mark:
  "init_heap env4096 4096 fresh = (Inr (), t0) \<and> mem t0 (heap_start t0 + alloc_size t0) = 1
   \<and> balloc 4084 t0 = Some (Inr 4104, tfull)
   \<and> heap_start tfull + alloc_size tfull = heap_start t0 + alloc_size t0
   \<and> mem tfull (heap_start tfull + alloc_size tfull) = 3"
  using init_t0 step_tfull by (simp add: t0_def tfull_def region_def)

text \<open>
  Claim C5.  \<open>bfree\<close> checks the range of the header before the status bit, and
  rejects a header at or after the end mark.  In the source the status bit of the
  header word is tested first (a header before \<^verbatim>\<open>heap_start\<close> with an even word is
  answered as already freed), and the only test at the upper end is for a word equal
  to 1: once the end mark holds 3, the pointer after it is released and the end mark
  is overwritten.
\<close>

theorem bfree_range_check:
  "init_heap env4096 4096 fresh = (Inr (), t0)
   \<and> 4096 - header_size < heap_start t0 \<and> bfree 4096 t0 = (Inl DoubleFree, t0)
   \<and> balloc 4084 t0 = Some (Inr 4104, tfull)
   \<and> 8192 - header_size = heap_start tfull + alloc_size tfull
   \<and> bfree 8192 tfull = (Inr (), tbad) \<and> tbad \<noteq> tfull"
proof -
  have "mem tbad 8188 \<noteq> mem tfull 8188" by (simp add: tbad_def tfull_def region_def)
  then have "tbad \<noteq> tfull" by auto
  then show ?thesis
    using init_t0 step_before step_tfull step_tbad
    by (simp add: t0_def tfull_def region_def header_size_def)
qed

text \<open>
  Claim C4.  The sizes of the blocks read from the first block, plus the word of the
  end mark, add up to the size of the region at every point.  \<open>coalesce\<close> reads the last
  word of the block before the freed one as a footer also when that block is allocated
  and the word belongs to the caller.  With -8 stored there, \<open>bfree\<close> of the second block
  takes the header of the free block behind it (4116) for the previous header and sets
  it to 0: the headers read from the first block then cover 16 of the 4088 bytes, and
  the end mark is no longer reached.
\<close>

theorem caller_store_breaks_block_sum:
  "init_heap env4096 4096 fresh = (Inr (), t0)
   \<and> is_walk (mem t0) (heap_start t0) [4100] \<and> sum_list (map (bsize t0) [4100]) = 4088
   \<and> balloc 4 t0 = Some (Inr 4104, t1) \<and> balloc 4 t1 = Some (Inr 4112, t2)
   \<and> tw = wr 4104 (- 8) t2 \<and> bfree 4112 tw = (Inr (), tz)
   \<and> is_walk (mem tz) (heap_start tz) [4100, 4108]
   \<and> sum_list (map (bsize tz) [4100, 4108]) = 16
   \<and> mem tz (4100 + 16) = 0 \<and> mem tz (heap_start tz + alloc_size tz) = 1"
  using init_t0 step_t1 step_t2 store_tw step_tz
  by (simp add: t0_def tz_def region_def bsize_def)

text \<open>
  Claim C9.  Every pointer returned by \<open>balloc\<close> is a multiple of 8.  In the run below
  \<open>bfree 4144\<close> reads the stale footer 40 inside the block the caller holds at 4120 and
  merges over that block; \<open>balloc 16\<close> then puts the header of a free block at 4124,
  inside the caller's payload.  Once the caller has stored 28 there, the scan of
  \<open>best_block\<close> goes on from 4124 by 28 bytes, and \<open>balloc 28\<close> returns 4156, which is 4
  modulo 8.
\<close>

theorem balloc_returns_unaligned:
  "init_heap env4096 4096 fresh = (Inr (), t0) \<and> balloc 36 t0 = Some (Inr 4104, v1)
   \<and> bfree 4104 v1 = (Inr (), v2) \<and> balloc 8 v2 = Some (Inr 4104, v3)
   \<and> balloc 20 v3 = Some (Inr 4120, v4) \<and> balloc 8 v4 = Some (Inr 4144, v5)
   \<and> bfree 4104 v5 = (Inr (), v6) \<and> bfree 4144 v6 = (Inr (), v7)
   \<and> balloc 16 v7 = Some (Inr 4104, v8) \<and> v9 = wr 4124 28 v8
   \<and> balloc 28 v9 = Some (Inr 4156, v10) \<and> (4156 :: int) mod 8 = 4
   \<and> is_alloc v10 (4156 - header_size) \<and> (4156 - header_size) mod 8 = 0"
  using init_t0 step_v1 step_v2 step_v3 step_v4 step_v5 step_v6 step_v7 step_v8 store_v9
    step_v10
  by (simp add: v10_def region_def is_alloc_def header_size_def)

text \<open>
  Claim C7.  \<open>balloc\<close> followed by \<open>bfree\<close> of its pointer restores the fresh region.
  The first block is free again with the size of the whole region, but its header has
  lost the p-bit that \<open>init_heap\<close> set (4090 becomes 4088), and when the request took the
  whole region the end mark stays 3.
\<close>

theorem round_trip_not_restored:
  "init_heap env4096 4096 fresh = (Inr (), t0)
   \<and> mem t0 (heap_start t0) = 4090 \<and> prev_alloc t0 (heap_start t0)
   \<and> mem t0 (heap_start t0 + alloc_size t0) = 1
   \<and> balloc 4 t0 = Some (Inr 4104, t1) \<and> bfree 4104 t1 = (Inr (), r2)
   \<and> mem r2 (heap_start r2) = 4088 \<and> \<not> prev_alloc r2 (heap_start r2)
   \<and> balloc 4084 t0 = Some (Inr 4104, tfull) \<and> bfree 4104 tfull = (Inr (), r3)
   \<and> mem r3 (heap_start r3) = 4088 \<and> mem r3 (heap_start r3 + alloc_size r3) = 3"
  using init_t0 step_t1 step_r2 step_tfull step_r3
  by (simp add: t0_def r2_def r3_def region_def prev_alloc_def)


end
